theory Spec2Isabelle
  imports Complex_Main "HOL-Library.Sublist"
begin

section \<open>Python strings\<close>

text \<open>
  A Python \<open>str\<close> is modelled as a \<open>string\<close>: one \<open>char\<close> per code point, for the code
  points U+0000 to U+00FF. The functions below follow the methods of \<open>str\<close> that
  \<open>qa_agent.py\<close> calls, restricted to that range.
\<close>

definition NL :: char where
  "NL = CHR 0x0A"

text \<open>\<open>str.isspace\<close> on one code point below U+0100.\<close>

definition isspace :: "char \<Rightarrow> bool" where
  "isspace c = (let n = (of_char c :: nat)
     in (9 \<le> n \<and> n \<le> 13) \<or> (28 \<le> n \<and> n \<le> 32) \<or> n = 133 \<or> n = 160)"

definition lstrip :: "string \<Rightarrow> string" where
  "lstrip s = dropWhile isspace s"

definition rstrip :: "string \<Rightarrow> string" where
  "rstrip s = rev (dropWhile isspace (rev s))"

text \<open>\<open>s.strip()\<close>: whitespace removed at both ends.\<close>

definition strip :: "string \<Rightarrow> string" where
  "strip s = rstrip (lstrip s)"

text \<open>\<open>s.rstrip(chars)\<close>: trailing characters of the set \<open>chars\<close> removed.\<close>

definition rstrip_chars :: "string \<Rightarrow> string \<Rightarrow> string" where
  "rstrip_chars s cs = rev (dropWhile (\<lambda>c. c \<in> set cs) (rev s))"

definition lower_char :: "char \<Rightarrow> char" where
  "lower_char c = (let n = (of_char c :: nat)
     in if (65 \<le> n \<and> n \<le> 90) \<or> (192 \<le> n \<and> n \<le> 222 \<and> n \<noteq> 215)
        then char_of (n + 32) else c)"

text \<open>\<open>s.lower()\<close>.\<close>

definition lower :: "string \<Rightarrow> string" where
  "lower s = map lower_char s"

text \<open>\<open>s.startswith(p)\<close>.\<close>

fun startswith :: "string \<Rightarrow> string \<Rightarrow> bool" where
  "startswith s [] = True"
| "startswith [] (p # ps) = False"
| "startswith (c # cs) (p # ps) = (c = p \<and> startswith cs ps)"

text \<open>\<open>p in s\<close>: \<open>p\<close> occurs in \<open>s\<close> as a contiguous substring.\<close>

fun contains :: "string \<Rightarrow> string \<Rightarrow> bool" where
  "contains [] p = (p = [])"
| "contains (c # cs) p = (startswith (c # cs) p \<or> contains cs p)"

text \<open>\<open>s.find(c)\<close> for a one-character needle: the lowest index, or \<open>-1\<close>.\<close>

fun str_find :: "string \<Rightarrow> char \<Rightarrow> int" where
  "str_find [] c = -1"
| "str_find (x # xs) c =
     (if x = c then 0 else (let r = str_find xs c in if r = -1 then -1 else r + 1))"

text \<open>\<open>s.rfind(c)\<close> for a one-character needle: the highest index, or \<open>-1\<close>.\<close>

definition str_rfind :: "string \<Rightarrow> char \<Rightarrow> int" where
  "str_rfind s c = (let r = str_find (rev s) c in if r = -1 then -1 else int (length s) - 1 - r)"

text \<open>\<open>s[a:b]\<close> for \<open>0 \<le> a\<close> and \<open>0 \<le> b\<close>, the only slices the program takes.\<close>

definition slice :: "string \<Rightarrow> int \<Rightarrow> int \<Rightarrow> string" where
  "slice s a b = take (nat b - nat a) (drop (nat a) s)"

text \<open>\<open>sep.join(xs)\<close>.\<close>

fun join :: "string \<Rightarrow> string list \<Rightarrow> string" where
  "join sep [] = []"
| "join sep [x] = x"
| "join sep (x # y # ys) = x @ sep @ join sep (y # ys)"

text \<open>\<open>s.split(c)\<close> for a one-character separator: never an empty list.\<close>

fun split_on :: "char \<Rightarrow> string \<Rightarrow> string list" where
  "split_on c [] = [[]]"
| "split_on c (x # xs) =
     (if x = c then [] # split_on c xs
      else (case split_on c xs of [] \<Rightarrow> [[x]] | l # ls \<Rightarrow> (x # l) # ls))"

text \<open>\<open>str(n)\<close> of an integer: decimal digits, with a minus sign when negative.\<close>

fun str_nat :: "nat \<Rightarrow> string" where
  "str_nat n = (if n < 10 then [char_of (48 + n)]
                else str_nat (n div 10) @ [char_of (48 + n mod 10)])"

declare str_nat.simps [simp del]

definition str_int :: "int \<Rightarrow> string" where
  "str_int i = (if i < 0 then CHR ''-'' # str_nat (nat (- i)) else str_nat (nat i))"

text \<open>\<open>int(s)\<close> on a decimal text with an optional minus sign: the number that \<open>str\<close> wrote.\<close>

definition nat_of_str :: "string \<Rightarrow> nat" where
  "nat_of_str s = foldl (\<lambda>a c. 10 * a + (of_char c - 48)) 0 s"

definition int_of_str :: "string \<Rightarrow> int" where
  "int_of_str s = (case s of [] \<Rightarrow> 0
                   | c # cs \<Rightarrow> if c = CHR ''-'' then - int (nat_of_str cs) else int (nat_of_str s))"


section \<open>textwrap.dedent\<close>

text \<open>
  The prompts are built with \<open>textwrap.dedent(...)\<close> of the standard library. It works on
  the lines between newline characters: a line made only of spaces and tabs becomes
  empty, and the longest run of spaces and tabs that starts every remaining non-empty
  line (the margin) is removed from each line that starts with it.
\<close>

definition is_blank :: "char \<Rightarrow> bool" where
  "is_blank c = (c = CHR '' '' \<or> c = CHR 0x09)"

definition normalize_line :: "string \<Rightarrow> string" where
  "normalize_line l = (if list_all is_blank l then [] else l)"

fun common_prefix :: "string \<Rightarrow> string \<Rightarrow> string" where
  "common_prefix (x # xs) (y # ys) = (if x = y then x # common_prefix xs ys else [])"
| "common_prefix xs ys = []"

definition indents :: "string list \<Rightarrow> string list" where
  "indents ls = map (takeWhile is_blank) (filter (\<lambda>l. dropWhile is_blank l \<noteq> []) ls)"

definition margin :: "string list \<Rightarrow> string" where
  "margin ls = (case indents ls of [] \<Rightarrow> [] | i # is \<Rightarrow> foldl common_prefix i is)"

definition remove_margin :: "string \<Rightarrow> string \<Rightarrow> string" where
  "remove_margin m l = (if startswith l m then drop (length m) l else l)"

definition dedent :: "string \<Rightarrow> string" where
  "dedent text = (let ls = map normalize_line (split_on NL text)
                  in join [NL] (map (remove_margin (margin ls)) ls))"


section \<open>Prompts\<close>

text \<open>The fixed lines of the generation prompt, between the opening newline and the schema.\<close>

definition sql_prompt_head :: "string list" where
  "sql_prompt_head =
    [''You are a careful data assistant. Convert the user question into a single SQL SELECT query.'',
     ''Rules:'',
     ''- Use ONLY tables/columns in the schema. Prefer explicit JOINs.'',
     ''- If the question is ambiguous, ask for clarification instead of guessing.'',
     ''- Return STRICT JSON only (no markdown):'',
     ''  {\"type\":\"sql\",\"sql\":\"...\",\"params\":{}}  or  {\"type\":\"clarify\",\"question\":\"...\"}'',
     ''Schema:'']"

text \<open>The repair section of \<open>_sql_prompt\<close>: empty when \<open>last_error\<close> is the empty string.\<close>

definition repair :: "string \<Rightarrow> string" where
  "repair last_error =
     (if last_error \<noteq> [] then [NL] @ ''Previous SQL failed: '' @ last_error @ [NL] @ ''Fix it.'' @ [NL]
      else [])"

text \<open>The f-string of \<open>_sql_prompt\<close>, before \<open>dedent\<close> and \<open>strip\<close>.\<close>

definition sql_prompt_text :: "string \<Rightarrow> string \<Rightarrow> string \<Rightarrow> string" where
  "sql_prompt_text question schema last_error =
     [NL] @ join [NL] sql_prompt_head @ [NL] @ schema @ [NL]
       @ ''User question: '' @ question @ repair last_error @ [NL]"

text \<open>\<open>_sql_prompt(question, schema, last_error)\<close>.\<close>

definition sql_prompt :: "string \<Rightarrow> string \<Rightarrow> string \<Rightarrow> string" where
  "sql_prompt question schema last_error = strip (dedent (sql_prompt_text question schema last_error))"

text \<open>
  The f-string of \<open>_answer_prompt\<close> ends with \<open>json.dumps\<close> of the result table; the
  serialised text is the argument \<open>result\<close>.
\<close>

definition answer_prompt :: "string \<Rightarrow> string \<Rightarrow> string \<Rightarrow> string" where
  "answer_prompt question query result = strip (dedent
     ([NL] @ ''You are a helpful assistant. Write a concise, human-readable answer grounded ONLY in the SQL result.''
      @ [NL] @ ''If empty, say so and suggest a likely reason.''
      @ [NL] @ ''User question: '' @ question
      @ [NL] @ ''SQL: '' @ query
      @ [NL] @ ''Result: '' @ result @ [NL]))"


section \<open>JSON values\<close>

text \<open>
  The values \<open>json.loads\<close> can return. An object keeps its items as an association list
  in which every key occurs once, as in a Python \<open>dict\<close>. A \<open>float\<close> is carried as the
  number it denotes: the program never computes with one.
\<close>

datatype pyfloat = Finite rat | PosInf | NegInf | NaN

datatype json =
    JNull
  | JBool bool
  | JInt int
  | JFloat pyfloat
  | JStr string
  | JArr "json list"
  | JObj "(string \<times> json) list"

text \<open>Python's truth value of an object, as \<open>or\<close> and \<open>if\<close> test it.\<close>

fun truthy :: "json \<Rightarrow> bool" where
  "truthy JNull = False"
| "truthy (JBool b) = b"
| "truthy (JInt i) = (i \<noteq> 0)"
| "truthy (JFloat f) = (f \<noteq> Finite 0)"
| "truthy (JStr s) = (s \<noteq> [])"
| "truthy (JArr xs) = (xs \<noteq> [])"
| "truthy (JObj kvs) = (kvs \<noteq> [])"

text \<open>
  \<open>_parse_json(text)\<close>. The parser \<open>json.loads\<close> of the standard library is the argument
  \<open>loads\<close>: \<open>Inr v\<close> is the value it returns, \<open>Inl m\<close> an exception with message
  \<open>m\<close>. The bare \<open>raise\<close> re-raises the first exception; a failure of the second call
  raises its own.
\<close>

definition parse_json :: "(string \<Rightarrow> string + json) \<Rightarrow> string \<Rightarrow> string + json" where
  "parse_json loads text =
     (let s = strip text
      in case loads s of
           Inr v \<Rightarrow> Inr v
         | Inl e \<Rightarrow>
             (let start = str_find s CHR ''{''; stop = str_rfind s CHR ''}''
              in if start \<noteq> -1 \<and> stop > start then loads (slice s start (stop + 1))
                 else Inl e))"


section \<open>State, configuration and collaborators\<close>

text \<open>One trace event: \<open>{"ts_ms": ..., "node": ..., "data": ...}\<close>.\<close>

record event =
  ts_ms :: int
  node :: string
  data :: "(string \<times> json) list"

text \<open>
  \<open>QAState\<close> is a \<open>TypedDict\<close> with \<open>total=False\<close>: every key may be absent, which is
  \<open>None\<close> here. \<open>clarification_question\<close> and \<open>answer\<close> hold whatever value the model's
  reply carried, so they are JSON values.
\<close>

record qastate =
  question :: "string option"
  schema :: "string option"
  decision :: "string option"
  clarification_question :: "json option"
  sql :: "string option"
  sql_params :: "json option"
  attempts :: "int option"
  last_error :: "string option"
  columns :: "string list option"
  rows :: "json list list option"
  answer :: "json option"
  trace :: "event list option"

record AgentConfig =
  max_attempts :: int
  max_rows :: int

text \<open>\<open>AgentConfig()\<close>: the defaults of the dataclass.\<close>

definition default_config :: AgentConfig where
  "default_config = \<lparr>max_attempts = 2, max_rows = 50\<rparr>"

text \<open>
  What the run has done to its collaborators so far: the prompts sent to the model, and the
  queries \<open>exec_sql\<close> has passed to \<open>cur.execute\<close>, each with its parameters (\<open>None\<close>
  when it was called without).
\<close>

record world =
  llm_calls :: "string list"
  db_calls :: "(string \<times> json option) list"

text \<open>
  The collaborators of \<open>build_app\<close>. The model and the database may answer differently
  at each call, so each reads the calls made before. \<open>master_sql\<close> is what the catalog
  query of \<open>_schema_text\<close> fetches (the \<open>sql\<close> column, \<open>None\<close> for NULL); an exception is
  \<open>Inl\<close> of its text. \<open>clock n\<close> is \<open>int(time.time() * 1000)\<close> when the trace holds
  \<open>n\<close> events.
\<close>

record env =
  cfg :: AgentConfig
  llm :: "string list \<Rightarrow> string \<Rightarrow> string"
  json_loads :: "string \<Rightarrow> string + json"
  json_dumps :: "json \<Rightarrow> string"
  master_sql :: "string + string option list"
  db_execute :: "(string \<times> json option) list \<Rightarrow> string \<Rightarrow> json option
                   \<Rightarrow> string + (string list \<times> json list list)"
  clock :: "nat \<Rightarrow> int"

datatype error = KeyError string | AttributeError string | DatabaseError string

text \<open>
  A step either returns the state or raises; \<open>Raised\<close> keeps the state and the calls
  made up to the exception.
\<close>

datatype outcome = Returned world qastate | Raised error world qastate

fun final_state :: "outcome \<Rightarrow> qastate" where
  "final_state (Returned w st) = st"
| "final_state (Raised e w st) = st"

fun final_world :: "outcome \<Rightarrow> world" where
  "final_world (Returned w st) = w"
| "final_world (Raised e w st) = w"

fun completed :: "outcome \<Rightarrow> bool" where
  "completed (Returned w st) = True"
| "completed (Raised e w st) = False"

text \<open>\<open>state.get(key, default)\<close> and \<open>state.get(key) or default\<close> for a string.\<close>

definition get_or :: "'a option \<Rightarrow> 'a \<Rightarrow> 'a" where
  "get_or v d = (case v of None \<Rightarrow> d | Some x \<Rightarrow> x)"

definition str_or :: "string option \<Rightarrow> string \<Rightarrow> string" where
  "str_or v d = (case v of None \<Rightarrow> d | Some x \<Rightarrow> if x \<noteq> [] then x else d)"

text \<open>\<open>v or {}\<close> for the query parameters.\<close>

definition params_or_empty :: "json option \<Rightarrow> json" where
  "params_or_empty v = (case v of None \<Rightarrow> JObj [] | Some p \<Rightarrow> if truthy p then p else JObj [])"

text \<open>\<open>_trace(state, node, **data)\<close>.\<close>

definition trace_event :: "env \<Rightarrow> qastate \<Rightarrow> string \<Rightarrow> (string \<times> json) list \<Rightarrow> qastate" where
  "trace_event env st nd d =
     (let tr = get_or (trace st) []
      in st\<lparr>trace := Some (tr @ [\<lparr>ts_ms = clock env (length tr), node = nd, data = d\<rparr>])\<rparr>)"

text \<open>\<open>_schema_text(conn)\<close>.\<close>

definition schema_text :: "env \<Rightarrow> string + string" where
  "schema_text env =
     (case master_sql env of
        Inl e \<Rightarrow> Inl e
      | Inr rs \<Rightarrow> Inr (join [NL, NL] [strip s @ '';''. Some s \<leftarrow> rs, s \<noteq> []]))"


section \<open>The nodes of the graph\<close>

definition load_schema :: "env \<Rightarrow> world \<Rightarrow> qastate \<Rightarrow> outcome" where
  "load_schema env w st =
     (case schema_text env of
        Inl e \<Rightarrow> Raised (DatabaseError e) w st
      | Inr sc \<Rightarrow>
          Returned w (trace_event env (st\<lparr>schema := Some sc\<rparr>) ''load_schema''
                        [(''chars'', JInt (int (length sc)))]))"

definition inc_attempts :: "env \<Rightarrow> qastate \<Rightarrow> qastate" where
  "inc_attempts env st =
     (let n = get_or (attempts st) 0 + 1
      in trace_event env (st\<lparr>attempts := Some n\<rparr>) ''attempt'' [(''n'', JInt n)])"

text \<open>
  The part of \<open>gen_sql\<close> after the reply has parsed to \<open>obj\<close>. \<open>obj.get\<close> exists on a
  \<open>dict\<close> only, and \<open>.strip()\<close> on a \<open>str\<close> only: on any other value the attribute
  lookup raises, outside the \<open>try\<close>.
\<close>

definition gen_sql_obj :: "env \<Rightarrow> world \<Rightarrow> qastate \<Rightarrow> json \<Rightarrow> outcome" where
  "gen_sql_obj env w st obj =
     (case obj of
        JObj kvs \<Rightarrow>
          if map_of kvs ''type'' = Some (JStr ''clarify'') then
            Returned w (st\<lparr>decision := Some ''clarify'',
                           clarification_question :=
                             Some (get_or (map_of kvs ''question'') (JStr ''Can you clarify?''))\<rparr>)
          else
            (case get_or (map_of kvs ''sql'') (JStr []) of
               JStr t \<Rightarrow>
                 (let q = rstrip_chars (strip t) '';''
                  in if \<not> startswith (lower q) ''select'' then
                       Returned w (st\<lparr>decision := Some ''sql'', sql := Some [],
                                      sql_params := Some (JObj []),
                                      last_error := Some ''Only SELECT allowed.''\<rparr>)
                     else
                       (let q' = (if \<not> contains (lower q) '' limit ''
                                  then q @ '' LIMIT '' @ str_int (max_rows (cfg env)) else q)
                        in Returned w
                             (trace_event env
                                (st\<lparr>decision := Some ''sql'', sql := Some q',
                                    sql_params := Some (params_or_empty (map_of kvs ''params'')),
                                    last_error := Some []\<rparr>)
                                ''gen_sql'' [(''sql'', JStr q')])))
             | _ \<Rightarrow> Raised (AttributeError ''strip'') w st)
      | _ \<Rightarrow> Raised (AttributeError ''get'') w st)"

definition gen_sql :: "env \<Rightarrow> world \<Rightarrow> qastate \<Rightarrow> outcome" where
  "gen_sql env w st =
     (case question st of
        None \<Rightarrow> Raised (KeyError ''question'') w st
      | Some qu \<Rightarrow>
          (case schema st of
             None \<Rightarrow> Raised (KeyError ''schema'') w st
           | Some sc \<Rightarrow>
               (let prompt = sql_prompt qu sc (get_or (last_error st) []);
                    raw = llm env (llm_calls w) prompt;
                    w1 = w\<lparr>llm_calls := llm_calls w @ [prompt]\<rparr>;
                    st1 = trace_event env st ''llm_raw'' [(''raw'', JStr raw)]
                in case parse_json (json_loads env) raw of
                     Inl e \<Rightarrow>
                       Returned w1 (st1\<lparr>decision := Some ''sql'', sql := Some [],
                                        sql_params := Some (JObj []),
                                        last_error := Some (''Invalid JSON: '' @ e)\<rparr>)
                   | Inr obj \<Rightarrow> gen_sql_obj env w1 st1 obj)))"

definition exec_sql :: "env \<Rightarrow> world \<Rightarrow> qastate \<Rightarrow> world \<times> qastate" where
  "exec_sql env w st =
     (let q = get_or (sql st) []; params = params_or_empty (sql_params st)
      in if q = [] then (w, st\<lparr>last_error := Some (str_or (last_error st) ''No SQL produced.'')\<rparr>)
         else
           (let arg = (if truthy params then Some params else None);
                w1 = w\<lparr>db_calls := db_calls w @ [(q, arg)]\<rparr>
            in case db_execute env (db_calls w) q arg of
                 Inr (cols, rs) \<Rightarrow>
                   (w1, trace_event env
                          (st\<lparr>rows := Some rs, columns := Some cols, last_error := Some []\<rparr>)
                          ''exec_sql'' [(''rows'', JInt (int (length rs)))])
               | Inl e \<Rightarrow>
                   (w1, trace_event env
                          (st\<lparr>columns := Some [], rows := Some [], last_error := Some e\<rparr>)
                          ''exec_sql_error'' [(''error'', JStr e)])))"

text \<open>The fixed answer of the error branch.\<close>

definition error_answer :: "string \<Rightarrow> string" where
  "error_answer e = ''Couldn't run a valid SQL query.'' @ [NL] @ ''Error: '' @ e @ [NL]
                      @ ''Try rephrasing or adding missing details.''"

text \<open>The node \<open>answer\<close>; the name \<open>answer\<close> is the state's key.\<close>

definition answer_node :: "env \<Rightarrow> world \<Rightarrow> qastate \<Rightarrow> outcome" where
  "answer_node env w st =
     (if decision st = Some ''clarify'' then
        (let a = get_or (clarification_question st) (JStr ''Can you clarify?'')
         in Returned w (trace_event env (st\<lparr>answer := Some a\<rparr>) ''answer'' [(''answer'', a)]))
      else if get_or (last_error st) [] \<noteq> [] then
        (let a = JStr (error_answer (get_or (last_error st) []))
         in Returned w (trace_event env (st\<lparr>answer := Some a\<rparr>) ''answer'' [(''answer'', a)]))
      else
        (case question st of
           None \<Rightarrow> Raised (KeyError ''question'') w st
         | Some qu \<Rightarrow>
             (case sql st of
                None \<Rightarrow> Raised (KeyError ''sql'') w st
              | Some q \<Rightarrow>
                  (let result = json_dumps env
                         (JObj [(''columns'', JArr (map JStr (get_or (columns st) []))),
                                (''rows'', JArr (map JArr (get_or (rows st) [])))]);
                       prompt = answer_prompt qu q result;
                       a = JStr (strip (llm env (llm_calls w) prompt));
                       w1 = w\<lparr>llm_calls := llm_calls w @ [prompt]\<rparr>
                   in Returned w1
                        (trace_event env (st\<lparr>answer := Some a\<rparr>) ''answer'' [(''answer'', a)])))))"

definition should_retry :: "env \<Rightarrow> qastate \<Rightarrow> string" where
  "should_retry env st =
     (if decision st \<noteq> Some ''clarify'' \<and> get_or (last_error st) [] \<noteq> []
         \<and> get_or (attempts st) 0 < max_attempts (cfg env)
      then ''retry'' else ''no_retry'')"


section \<open>The graph\<close>

text \<open>
  The edges \<open>attempt \<rightarrow> gen_sql \<rightarrow> exec_sql\<close>, then the conditional edge: back to
  \<open>attempt\<close> on \<open>retry\<close>, on to \<open>answer\<close> otherwise.
\<close>

function cycle :: "env \<Rightarrow> world \<Rightarrow> qastate \<Rightarrow> outcome" where
  "cycle env w st =
     (case gen_sql env w (inc_attempts env st) of
        Raised e w' st' \<Rightarrow> Raised e w' st'
      | Returned w' st' \<Rightarrow>
          (case exec_sql env w' st' of
             (w'', st'') \<Rightarrow>
               if should_retry env st'' = ''retry'' then cycle env w'' st''
               else answer_node env w'' st''))"
  by pat_completeness auto
termination
proof (relation "measure (\<lambda>(env, w, st). nat (max_attempts (cfg env) - get_or (attempts st) 0))")
  show "wf (measure (\<lambda>(env, w, st). nat (max_attempts (cfg env) - get_or (attempts st) 0)))"
    by simp
next
  fix env :: env and w w' w'' :: world and st st' st'' :: qastate
  assume g: "gen_sql env w (inc_attempts env st) = Returned w' st'"
    and p: "(w'', st'') = exec_sql env w' st'"
    and r: "should_retry env st'' = ''retry''"
  have a1: "attempts (inc_attempts env st) = Some (get_or (attempts st) 0 + 1)"
    by (simp add: inc_attempts_def trace_event_def Let_def)
  have a2: "attempts st' = attempts (inc_attempts env st)"
    using g
    by (auto simp: gen_sql_def gen_sql_obj_def trace_event_def Let_def
             split: option.splits sum.splits json.splits if_splits)
  have a3: "attempts st'' = attempts st'"
    using p
    by (auto simp: exec_sql_def trace_event_def Let_def split: sum.splits if_splits prod.splits)
  have "get_or (attempts st'') 0 < max_attempts (cfg env)"
    using r by (simp add: should_retry_def split: if_splits)
  then show "((env, w'', st''), (env, w, st))
      \<in> measure (\<lambda>(env, w, st). nat (max_attempts (cfg env) - get_or (attempts st) 0))"
    using a1 a2 a3 by (simp add: get_or_def)
qed

declare cycle.simps [simp del]

text \<open>
  The compiled graph on an initial state: \<open>START \<rightarrow> load_schema \<rightarrow> attempt\<close>. An
  exception in a node ends the run.
\<close>

definition invoke :: "env \<Rightarrow> world \<Rightarrow> qastate \<Rightarrow> outcome" where
  "invoke env w st =
     (case load_schema env w st of
        Raised e w' st' \<Rightarrow> Raised e w' st'
      | Returned w' st' \<Rightarrow> cycle env w' st')"

text \<open>The initial state of \<open>run_question\<close>: \<open>{"question": question, "trace": [], "attempts": 0}\<close>.\<close>

definition initial_state :: "string \<Rightarrow> qastate" where
  "initial_state qu =
     \<lparr>question = Some qu, schema = None, decision = None, clarification_question = None,
      sql = None, sql_params = None, attempts = Some 0, last_error = None, columns = None,
      rows = None, answer = None, trace = Some []\<rparr>"

text \<open>\<open>run_question\<close>: the outcome of the graph, from which the caller reads the answer and the trace.\<close>

definition run_question :: "env \<Rightarrow> world \<Rightarrow> string \<Rightarrow> outcome" where
  "run_question env w qu = invoke env w (initial_state qu)"

text \<open>The names of the events of a state's trace, in order.\<close>

definition nodes :: "qastate \<Rightarrow> string list" where
  "nodes st = map node (get_or (trace st) [])"

text \<open>The trace names of an execution: \<open>exec_sql\<close> on success, \<open>exec_sql_error\<close> on failure.\<close>

definition is_exec_node :: "string \<Rightarrow> bool" where
  "is_exec_node n = (n = ''exec_sql'' \<or> n = ''exec_sql_error'')"

text \<open>The number of \<open>attempt\<close> events in a state's trace: the cycles the run has started.\<close>

definition attempt_events :: "qastate \<Rightarrow> nat" where
  "attempt_events st = length (filter (\<lambda>n. n = ''attempt'') (nodes st))"

text \<open>
  The order in which the steps of the graph write their events. A phase names the event
  written last: \<open>load_schema\<close> opens the trace; each cycle writes \<open>attempt\<close>, then
  \<open>llm_raw\<close>, then \<open>gen_sql\<close> when the reply passed validation, then an execution event
  when \<open>exec_sql\<close> ran a query; after \<open>llm_raw\<close> or an execution event the next cycle
  starts or \<open>answer\<close> closes the trace. After \<open>gen_sql\<close> only an execution event can
  follow.
\<close>

datatype phase = AtStart | Loaded | Counted | Generated | Validated | Executed | Answered

definition step :: "phase \<Rightarrow> string \<Rightarrow> phase option" where
  "step p n =
     (if p = AtStart \<and> n = ''load_schema'' then Some Loaded
      else if (p = Loaded \<or> p = Generated \<or> p = Executed) \<and> n = ''attempt'' then Some Counted
      else if p = Counted \<and> n = ''llm_raw'' then Some Generated
      else if p = Generated \<and> n = ''gen_sql'' then Some Validated
      else if (p = Generated \<or> p = Validated) \<and> is_exec_node n then Some Executed
      else if (p = Generated \<or> p = Executed) \<and> n = ''answer'' then Some Answered
      else None)"

fun run_steps :: "phase \<Rightarrow> string list \<Rightarrow> phase option" where
  "run_steps p [] = Some p"
| "run_steps p (n # ns) = (case step p n of None \<Rightarrow> None | Some p' \<Rightarrow> run_steps p' ns)"

text \<open>A trace is in step order when its events, read from the start, end in \<open>Answered\<close>.\<close>

definition step_ordered :: "string list \<Rightarrow> bool" where
  "step_ordered ns = (run_steps AtStart ns = Some Answered)"

text \<open>
  The claim's words, not the program's test: a query has a row-limiting clause when the
  keyword \<open>limit\<close> occurs in it, in any letter case, outside its single-quoted
  literals. \<open>outside_literals\<close> drops the quotes and what they enclose.
\<close>

fun outside_literals :: "bool \<Rightarrow> string \<Rightarrow> string" where
  "outside_literals quoted [] = []"
| "outside_literals quoted (c # cs) =
     (if c = CHR 0x27 then outside_literals (\<not> quoted) cs
      else if quoted then outside_literals quoted cs
      else c # outside_literals quoted cs)"

definition spec_has_limit_clause :: "string \<Rightarrow> bool" where
  "spec_has_limit_clause q = contains (lower (outside_literals False q)) ''limit''"


section \<open>Collaborators for concrete runs\<close>

text \<open>
  A model that replays a non-empty list of replies by the number of the call and repeats
  the last one, in the manner of \<open>FakeLLM\<close> of \<open>test_agent.py\<close>; it does not read
  the prompt.
\<close>

definition scripted_llm :: "string list \<Rightarrow> string list \<Rightarrow> string \<Rightarrow> string" where
  "scripted_llm rs hist prompt = rs ! min (length hist) (length rs - 1)"

definition clarify_reply :: string where
  "clarify_reply = ''{\"type\":\"clarify\",\"question\":\"Which semester?\"}''"

definition delete_reply :: string where
  "delete_reply = ''{\"type\":\"sql\",\"sql\":\"DELETE FROM teachers\",\"params\":{}}''"

definition select_reply :: string where
  "select_reply = ''{\"type\":\"sql\",\"sql\":\"SELECT name FROM teachers\",\"params\":{}}''"

definition fake_table_reply :: string where
  "fake_table_reply = ''{\"type\":\"sql\",\"sql\":\"SELECT * FROM fake_table\",\"params\":{}}''"

definition limit_reply :: string where
  "limit_reply = ''{\"type\":\"sql\",\"sql\":\"SELECT name FROM teachers LiMiT 5\",\"params\":{}}''"

definition padded_reply :: string where
  "padded_reply = ''{\"type\":\"sql\",\"sql\":\"  SELECT name FROM teachers;; \",\"params\":{}}''"

definition literal_query :: string where
  "literal_query = ''SELECT name FROM teachers WHERE name <> ' limit ' ORDER BY name''"

definition literal_reply :: string where
  "literal_reply = ''{\"type\":\"sql\",\"sql\":\"'' @ literal_query @ ''\",\"params\":{}}''"

definition clarify_items :: "(string \<times> json) list" where
  "clarify_items = [(''type'', JStr ''clarify''), (''question'', JStr ''Which semester?'')]"

definition sql_items :: "string \<Rightarrow> (string \<times> json) list" where
  "sql_items q = [(''type'', JStr ''sql''), (''sql'', JStr q), (''params'', JObj [])]"

text \<open>
  What \<open>json.loads\<close> returns on the texts the concrete runs below pass to it. Every
  other text these runs pass starts with a letter that opens no JSON value, where
  \<open>json.loads\<close> raises with the message given last.
\<close>

definition json_loads_sample :: "string \<Rightarrow> string + json" where
  "json_loads_sample s =
     (if s = clarify_reply then Inr (JObj clarify_items)
      else if s = delete_reply then Inr (JObj (sql_items ''DELETE FROM teachers''))
      else if s = select_reply then Inr (JObj (sql_items ''SELECT name FROM teachers''))
      else if s = fake_table_reply then Inr (JObj (sql_items ''SELECT * FROM fake_table''))
      else if s = limit_reply then Inr (JObj (sql_items ''SELECT name FROM teachers LiMiT 5''))
      else if s = padded_reply then Inr (JObj (sql_items ''  SELECT name FROM teachers;; ''))
      else if s = literal_reply then Inr (JObj (sql_items literal_query))
      else if s = ''42'' then Inr (JInt 42)
      else if s = ''['' @ clarify_reply @ '']'' then Inr (JArr [JObj clarify_items])
      else Inl ''Expecting value: line 1 column 1 (char 0)'')"

text \<open>
  A database with one table \<open>teachers(name)\<close> holding one row: a query of that table
  succeeds, the query of \<open>fake_table\<close> raises.
\<close>

definition sample_db :: "(string \<times> json option) list \<Rightarrow> string \<Rightarrow> json option
                           \<Rightarrow> string + (string list \<times> json list list)" where
  "sample_db hist q arg =
     (if startswith q ''SELECT name FROM teachers'' then Inr ([''name''], [[JStr ''Dr. Alice Nguyen'']])
      else Inl ''no such table: fake_table'')"

text \<open>
  The collaborators of the concrete runs: the scripted model, the database above, a clock
  that counts the events, and for \<open>json.dumps\<close> the text of the one result table that
  database returns.
\<close>

definition sample_env :: "string list \<Rightarrow> AgentConfig \<Rightarrow> env" where
  "sample_env rs c =
     \<lparr>cfg = c, llm = scripted_llm rs, json_loads = json_loads_sample,
      json_dumps = (\<lambda>v. ''{\"columns\": [\"name\"], \"rows\": [[\"Dr. Alice Nguyen\"]]}''),
      master_sql = Inr [Some ''CREATE TABLE teachers (name TEXT)''],
      db_execute = sample_db, clock = (\<lambda>n. int n)\<rparr>"

definition w0 :: world where
  "w0 = \<lparr>llm_calls = [], db_calls = []\<rparr>"

text \<open>A state on entry to \<open>gen_sql\<close> in the first cycle.\<close>

definition ready_state :: qastate where
  "ready_state = (initial_state ''q'')\<lparr>schema := Some ''s'', attempts := Some 1\<rparr>"

text \<open>A state on entry to \<open>exec_sql\<close> after \<open>gen_sql\<close> has rejected the reply.\<close>

definition rejected_state :: qastate where
  "rejected_state = ready_state\<lparr>decision := Some ''sql'', sql := Some [], sql_params := Some (JObj []),
     last_error := Some ''Only SELECT allowed.''\<rparr>"

text \<open>A state on entry to \<open>answer\<close> after the only attempt has failed in the database.\<close>

definition failed_state :: qastate where
  "failed_state = ready_state\<lparr>decision := Some ''sql'', sql := Some ''SELECT * FROM fake_table LIMIT 50'',
     sql_params := Some (JObj []), columns := Some [], rows := Some [],
     last_error := Some ''no such table: fake_table''\<rparr>"

text \<open>A state on entry to \<open>answer\<close> after a clarify reply in the first cycle.\<close>

definition clarify_state :: qastate where
  "clarify_state = ready_state\<lparr>decision := Some ''clarify'',
     clarification_question := Some (JStr ''Which semester?''),
     last_error := Some ''No SQL produced.''\<rparr>"


section \<open>Facts about the string functions\<close>

lemma startswith_append: "startswith (p @ s) p"
  by (induction p) auto

lemma contains_startswith: "startswith s p \<Longrightarrow> contains s p"
  by (cases s) (auto elim: startswith.elims)

lemma contains_append: "contains (a @ p @ b) p"
proof (induction a)
  case Nil
  show ?case by (simp add: contains_startswith startswith_append)
next
  case (Cons x a)
  then show ?case by simp
qed



section \<open>What each node does to the state\<close>

lemma nodes_trace_event: "nodes (trace_event env st n d) = nodes st @ [n]"
  by (simp add: nodes_def trace_event_def get_or_def Let_def)

lemma trace_event_fields:
  "attempts (trace_event env st n d) = attempts st"
  "decision (trace_event env st n d) = decision st"
  "last_error (trace_event env st n d) = last_error st"
  "sql (trace_event env st n d) = sql st"
  "question (trace_event env st n d) = question st"
  "schema (trace_event env st n d) = schema st"
  "columns (trace_event env st n d) = columns st"
  "rows (trace_event env st n d) = rows st"
  "answer (trace_event env st n d) = answer st"
  by (simp_all add: trace_event_def Let_def)

lemma nodes_update:
  "nodes (st\<lparr>attempts := a\<rparr>) = nodes st"
  "nodes (st\<lparr>decision := b\<rparr>) = nodes st"
  "nodes (st\<lparr>last_error := c\<rparr>) = nodes st"
  "nodes (st\<lparr>sql := d\<rparr>) = nodes st"
  "nodes (st\<lparr>sql_params := e\<rparr>) = nodes st"
  "nodes (st\<lparr>clarification_question := f\<rparr>) = nodes st"
  "nodes (st\<lparr>schema := g\<rparr>) = nodes st"
  "nodes (st\<lparr>columns := h\<rparr>) = nodes st"
  "nodes (st\<lparr>rows := i\<rparr>) = nodes st"
  "nodes (st\<lparr>answer := j\<rparr>) = nodes st"
  by (simp_all add: nodes_def)

lemma inc_attempts_effect:
  "attempts (inc_attempts env st) = Some (get_or (attempts st) 0 + 1)"
  "nodes (inc_attempts env st) = nodes st @ [''attempt'']"
  "decision (inc_attempts env st) = decision st"
  "last_error (inc_attempts env st) = last_error st"
  "sql (inc_attempts env st) = sql st"
  "question (inc_attempts env st) = question st"
  "schema (inc_attempts env st) = schema st"
  "columns (inc_attempts env st) = columns st"
  "rows (inc_attempts env st) = rows st"
  by (simp_all add: inc_attempts_def Let_def nodes_trace_event trace_event_fields nodes_update)


lemma str_or_nonempty: "d \<noteq> [] \<Longrightarrow> str_or v d \<noteq> []"
  by (simp add: str_or_def split: option.splits)

lemma is_exec_not_attempt: "is_exec_node x \<Longrightarrow> x \<noteq> ''attempt''"
  by (auto simp: is_exec_node_def)

subsection \<open>gen_sql\<close>

lemma gen_sql_obj_not_dict:
  "\<forall>kvs. obj \<noteq> JObj kvs \<Longrightarrow> gen_sql_obj env w st obj = Raised (AttributeError ''get'') w st"
  by (cases obj) (simp_all add: gen_sql_obj_def)

lemma gen_sql_obj_clarify:
  "map_of kvs ''type'' = Some (JStr ''clarify'') \<Longrightarrow>
     gen_sql_obj env w st (JObj kvs) =
       Returned w (st\<lparr>decision := Some ''clarify'',
                       clarification_question :=
                         Some (get_or (map_of kvs ''question'') (JStr ''Can you clarify?''))\<rparr>)"
  by (simp add: gen_sql_obj_def)

lemma gen_sql_obj_not_str:
  "map_of kvs ''type'' \<noteq> Some (JStr ''clarify'') \<Longrightarrow>
   \<forall>t. get_or (map_of kvs ''sql'') (JStr []) \<noteq> JStr t \<Longrightarrow>
     gen_sql_obj env w st (JObj kvs) = Raised (AttributeError ''strip'') w st"
  by (cases "get_or (map_of kvs ''sql'') (JStr [])") (simp_all add: gen_sql_obj_def)

lemma gen_sql_obj_rejected:
  "map_of kvs ''type'' \<noteq> Some (JStr ''clarify'') \<Longrightarrow>
   get_or (map_of kvs ''sql'') (JStr []) = JStr t \<Longrightarrow>
   \<not> startswith (lower (rstrip_chars (strip t) '';'')) ''select'' \<Longrightarrow>
     gen_sql_obj env w st (JObj kvs) =
       Returned w (st\<lparr>decision := Some ''sql'', sql := Some [], sql_params := Some (JObj []),
                       last_error := Some ''Only SELECT allowed.''\<rparr>)"
  by (simp add: gen_sql_obj_def)

lemma gen_sql_obj_accepted:
  "map_of kvs ''type'' \<noteq> Some (JStr ''clarify'') \<Longrightarrow>
   get_or (map_of kvs ''sql'') (JStr []) = JStr t \<Longrightarrow>
   startswith (lower (rstrip_chars (strip t) '';'')) ''select'' \<Longrightarrow>
   q = (if \<not> contains (lower (rstrip_chars (strip t) '';'')) '' limit ''
        then rstrip_chars (strip t) '';'' @ '' LIMIT '' @ str_int (max_rows (cfg env))
        else rstrip_chars (strip t) '';'') \<Longrightarrow>
     gen_sql_obj env w st (JObj kvs) =
       Returned w (trace_event env
          (st\<lparr>decision := Some ''sql'', sql := Some q,
              sql_params := Some (params_or_empty (map_of kvs ''params'')), last_error := Some []\<rparr>)
          ''gen_sql'' [(''sql'', JStr q)])"
  by (simp add: gen_sql_obj_def Let_def)

lemma gen_sql_obj_returned:
  assumes "gen_sql_obj env w st obj = Returned w' st'"
  shows "w' = w \<and> attempts st' = attempts st \<and> columns st' = columns st \<and> rows st' = rows st
       \<and> ((nodes st' = nodes st \<and> decision st' = Some ''clarify'' \<and> sql st' = sql st)
          \<or> (nodes st' = nodes st \<and> sql st' = Some [] \<and> get_or (last_error st') [] \<noteq> [])
          \<or> (nodes st' = nodes st @ [''gen_sql''] \<and> decision st' = Some ''sql''
              \<and> get_or (sql st') [] \<noteq> []))"
proof (cases "\<exists>kvs. obj = JObj kvs")
  case False
  then show ?thesis
    using assms gen_sql_obj_not_dict [of obj env w st] by simp
next
  case True
  then obtain kvs where o: "obj = JObj kvs" by blast
  show ?thesis
  proof (cases "map_of kvs ''type'' = Some (JStr ''clarify'')")
    case True
    from gen_sql_obj_clarify [OF this, of env w st] show ?thesis
      using assms o by (auto simp: nodes_update)
  next
    case nc: False
    show ?thesis
    proof (cases "\<exists>t. get_or (map_of kvs ''sql'') (JStr []) = JStr t")
      case False
      then show ?thesis
        using assms o gen_sql_obj_not_str [OF nc, of env w st] by simp
    next
      case True
      then obtain t where t: "get_or (map_of kvs ''sql'') (JStr []) = JStr t" by blast
      let ?q = "rstrip_chars (strip t) '';''"
      show ?thesis
      proof (cases "startswith (lower ?q) ''select''")
        case False
        from gen_sql_obj_rejected [OF nc t this, of env w st] show ?thesis
          using assms o by (auto simp: nodes_update get_or_def)
      next
        case True
        then have "?q \<noteq> []"
          by (auto simp: lower_def)
        then have ne: "(if \<not> contains (lower ?q) '' limit ''
                        then ?q @ '' LIMIT '' @ str_int (max_rows (cfg env)) else ?q) \<noteq> []"
          by simp
        from gen_sql_obj_accepted [OF nc t True refl, of env w st] assms o
        have "w' = w" and "st' = trace_event env
          (st\<lparr>decision := Some ''sql'',
              sql := Some (if \<not> contains (lower ?q) '' limit ''
                           then ?q @ '' LIMIT '' @ str_int (max_rows (cfg env)) else ?q),
              sql_params := Some (params_or_empty (map_of kvs ''params'')), last_error := Some []\<rparr>)
          ''gen_sql'' [(''sql'', JStr (if \<not> contains (lower ?q) '' limit ''
                           then ?q @ '' LIMIT '' @ str_int (max_rows (cfg env)) else ?q))]"
          by simp_all
        then show ?thesis
          using ne by (simp add: nodes_update nodes_trace_event trace_event_fields get_or_def)
      qed
    qed
  qed
qed

lemma gen_sql_obj_raised:
  assumes "gen_sql_obj env w st obj = Raised e w' st'"
  shows "w' = w \<and> st' = st"
proof (cases "\<exists>kvs. obj = JObj kvs")
  case False
  then show ?thesis
    using assms gen_sql_obj_not_dict [of obj env w st] by simp
next
  case True
  then obtain kvs where o: "obj = JObj kvs" by blast
  show ?thesis
  proof (cases "map_of kvs ''type'' = Some (JStr ''clarify'')")
    case True
    from gen_sql_obj_clarify [OF this, of env w st] show ?thesis
      using assms o by simp
  next
    case nc: False
    show ?thesis
    proof (cases "\<exists>t. get_or (map_of kvs ''sql'') (JStr []) = JStr t")
      case False
      then show ?thesis
        using assms o gen_sql_obj_not_str [OF nc, of env w st] by simp
    next
      case True
      then obtain t where t: "get_or (map_of kvs ''sql'') (JStr []) = JStr t" by blast
      show ?thesis
      proof (cases "startswith (lower (rstrip_chars (strip t) '';'')) ''select''")
        case False
        from gen_sql_obj_rejected [OF nc t this, of env w st] show ?thesis
          using assms o by simp
      next
        case True
        from gen_sql_obj_accepted [OF nc t True refl, of env w st] show ?thesis
          using assms o by simp
      qed
    qed
  qed
qed

lemma gen_sql_no_question: "question st = None \<Longrightarrow> gen_sql env w st = Raised (KeyError ''question'') w st"
  by (simp add: gen_sql_def)

lemma gen_sql_no_schema:
  "question st = Some qu \<Longrightarrow> schema st = None \<Longrightarrow> gen_sql env w st = Raised (KeyError ''schema'') w st"
  by (simp add: gen_sql_def)

lemma gen_sql_invalid_json:
  "question st = Some qu \<Longrightarrow> schema st = Some sc \<Longrightarrow>
   parse_json (json_loads env) (llm env (llm_calls w) (sql_prompt qu sc (get_or (last_error st) []))) = Inl e \<Longrightarrow>
     gen_sql env w st =
       Returned (w\<lparr>llm_calls := llm_calls w @ [sql_prompt qu sc (get_or (last_error st) [])]\<rparr>)
         ((trace_event env st ''llm_raw''
             [(''raw'', JStr (llm env (llm_calls w) (sql_prompt qu sc (get_or (last_error st) []))))])
          \<lparr>decision := Some ''sql'', sql := Some [], sql_params := Some (JObj []),
           last_error := Some (''Invalid JSON: '' @ e)\<rparr>)"
  by (simp add: gen_sql_def Let_def)

lemma gen_sql_parsed:
  "question st = Some qu \<Longrightarrow> schema st = Some sc \<Longrightarrow>
   parse_json (json_loads env) (llm env (llm_calls w) (sql_prompt qu sc (get_or (last_error st) []))) = Inr obj \<Longrightarrow>
     gen_sql env w st =
       gen_sql_obj env (w\<lparr>llm_calls := llm_calls w @ [sql_prompt qu sc (get_or (last_error st) [])]\<rparr>)
         (trace_event env st ''llm_raw''
            [(''raw'', JStr (llm env (llm_calls w) (sql_prompt qu sc (get_or (last_error st) []))))])
         obj"
  by (simp add: gen_sql_def Let_def)

lemma gen_sql_returned:
  assumes "gen_sql env w st = Returned w' st'"
  shows "db_calls w' = db_calls w \<and> length (llm_calls w') = Suc (length (llm_calls w))
       \<and> attempts st' = attempts st \<and> columns st' = columns st \<and> rows st' = rows st
       \<and> ((nodes st' = nodes st @ [''llm_raw''] \<and> decision st' = Some ''clarify'' \<and> sql st' = sql st)
          \<or> (nodes st' = nodes st @ [''llm_raw''] \<and> sql st' = Some [] \<and> get_or (last_error st') [] \<noteq> [])
          \<or> (nodes st' = nodes st @ [''llm_raw'', ''gen_sql''] \<and> decision st' = Some ''sql''
              \<and> get_or (sql st') [] \<noteq> []))"
proof -
  obtain qu where q: "question st = Some qu"
    using assms gen_sql_no_question [of st env w] by (cases "question st") auto
  obtain sc where s: "schema st = Some sc"
    using assms gen_sql_no_schema [OF q, of env w] by (cases "schema st") auto
  let ?p = "sql_prompt qu sc (get_or (last_error st) [])"
  show ?thesis
  proof (cases "parse_json (json_loads env) (llm env (llm_calls w) ?p)")
    case (Inl e)
    from gen_sql_invalid_json [OF q s Inl] show ?thesis
      using assms by (auto simp: nodes_update nodes_trace_event trace_event_fields get_or_def)
  next
    case (Inr obj)
    from gen_sql_parsed [OF q s Inr] assms have
      "gen_sql_obj env (w\<lparr>llm_calls := llm_calls w @ [?p]\<rparr>)
         (trace_event env st ''llm_raw'' [(''raw'', JStr (llm env (llm_calls w) ?p))]) obj
       = Returned w' st'"
      by simp
    from gen_sql_obj_returned [OF this] show ?thesis
      by (auto simp: nodes_trace_event trace_event_fields)
  qed
qed

lemma gen_sql_raised:
  assumes "gen_sql env w st = Raised e w' st'"
  shows "db_calls w' = db_calls w \<and> attempts st' = attempts st
       \<and> (nodes st' = nodes st \<or> nodes st' = nodes st @ [''llm_raw''])"
proof (cases "question st")
  case None
  then show ?thesis using assms by (simp add: gen_sql_no_question)
next
  case (Some qu)
  note q = this
  show ?thesis
  proof (cases "schema st")
    case None
    then show ?thesis using assms q by (simp add: gen_sql_no_schema)
  next
    case (Some sc)
    let ?p = "sql_prompt qu sc (get_or (last_error st) [])"
    show ?thesis
    proof (cases "parse_json (json_loads env) (llm env (llm_calls w) ?p)")
      case (Inl e)
      from gen_sql_invalid_json [OF q Some Inl] show ?thesis
        using assms by simp
    next
      case (Inr obj)
      from gen_sql_parsed [OF q Some Inr] assms have
        "gen_sql_obj env (w\<lparr>llm_calls := llm_calls w @ [?p]\<rparr>)
           (trace_event env st ''llm_raw'' [(''raw'', JStr (llm env (llm_calls w) ?p))]) obj
         = Raised e w' st'"
        by simp
      from gen_sql_obj_raised [OF this] show ?thesis
        by (simp add: nodes_trace_event trace_event_fields)
    qed
  qed
qed

subsection \<open>exec_sql\<close>

lemma exec_sql_skip:
  "get_or (sql st) [] = [] \<Longrightarrow>
     exec_sql env w st = (w, st\<lparr>last_error := Some (str_or (last_error st) ''No SQL produced.'')\<rparr>)"
  by (simp add: exec_sql_def Let_def)

lemma exec_sql_ok:
  "get_or (sql st) [] = q \<Longrightarrow> q \<noteq> [] \<Longrightarrow>
   arg = (if truthy (params_or_empty (sql_params st)) then Some (params_or_empty (sql_params st)) else None) \<Longrightarrow>
   db_execute env (db_calls w) q arg = Inr (cols, rs) \<Longrightarrow>
     exec_sql env w st =
       (w\<lparr>db_calls := db_calls w @ [(q, arg)]\<rparr>,
        trace_event env (st\<lparr>rows := Some rs, columns := Some cols, last_error := Some []\<rparr>)
          ''exec_sql'' [(''rows'', JInt (int (length rs)))])"
  by (simp add: exec_sql_def Let_def)

lemma exec_sql_failed:
  "get_or (sql st) [] = q \<Longrightarrow> q \<noteq> [] \<Longrightarrow>
   arg = (if truthy (params_or_empty (sql_params st)) then Some (params_or_empty (sql_params st)) else None) \<Longrightarrow>
   db_execute env (db_calls w) q arg = Inl e \<Longrightarrow>
     exec_sql env w st =
       (w\<lparr>db_calls := db_calls w @ [(q, arg)]\<rparr>,
        trace_event env (st\<lparr>columns := Some [], rows := Some [], last_error := Some e\<rparr>)
          ''exec_sql_error'' [(''error'', JStr e)])"
  by (simp add: exec_sql_def Let_def)

lemma exec_sql_effect:
  assumes "exec_sql env w st = (w', st')"
  shows "attempts st' = attempts st \<and> decision st' = decision st
       \<and> ((get_or (sql st) [] = [] \<and> w' = w \<and> nodes st' = nodes st \<and> get_or (last_error st') [] \<noteq> []
            \<and> columns st' = columns st \<and> rows st' = rows st)
          \<or> (get_or (sql st) [] \<noteq> [] \<and> length (db_calls w') = Suc (length (db_calls w))
              \<and> llm_calls w' = llm_calls w
              \<and> (\<exists>x. is_exec_node x \<and> nodes st' = nodes st @ [x])))"
proof (cases "get_or (sql st) [] = []")
  case True
  from exec_sql_skip [OF this, of env w] show ?thesis
    using assms True by (auto simp: nodes_update get_or_def str_or_nonempty)
next
  case False
  let ?arg = "if truthy (params_or_empty (sql_params st)) then Some (params_or_empty (sql_params st)) else None"
  show ?thesis
  proof (cases "db_execute env (db_calls w) (get_or (sql st) []) ?arg")
    case (Inl e)
    from exec_sql_failed [OF refl False refl Inl] have
      "w' = w\<lparr>db_calls := db_calls w @ [(get_or (sql st) [], ?arg)]\<rparr>"
      "st' = trace_event env (st\<lparr>columns := Some [], rows := Some [], last_error := Some e\<rparr>)
          ''exec_sql_error'' [(''error'', JStr e)]"
      using assms by simp_all
    then show ?thesis
      using False by (simp add: nodes_update nodes_trace_event trace_event_fields is_exec_node_def)
  next
    case (Inr r)
    obtain cols rs where r: "r = (cols, rs)" by (cases r)
    from exec_sql_ok [OF refl False refl Inr [unfolded r]] have
      "w' = w\<lparr>db_calls := db_calls w @ [(get_or (sql st) [], ?arg)]\<rparr>"
      "st' = trace_event env (st\<lparr>rows := Some rs, columns := Some cols, last_error := Some []\<rparr>)
          ''exec_sql'' [(''rows'', JInt (int (length rs)))]"
      using assms by simp_all
    then show ?thesis
      using False by (simp add: nodes_update nodes_trace_event trace_event_fields is_exec_node_def)
  qed
qed

subsection \<open>answer\<close>

lemma answer_node_clarify:
  "decision st = Some ''clarify'' \<Longrightarrow>
   a = get_or (clarification_question st) (JStr ''Can you clarify?'') \<Longrightarrow>
     answer_node env w st =
       Returned w (trace_event env (st\<lparr>answer := Some a\<rparr>) ''answer'' [(''answer'', a)])"
  by (simp add: answer_node_def Let_def)

lemma answer_node_error:
  "decision st \<noteq> Some ''clarify'' \<Longrightarrow> get_or (last_error st) [] \<noteq> [] \<Longrightarrow>
   a = JStr (error_answer (get_or (last_error st) [])) \<Longrightarrow>
     answer_node env w st =
       Returned w (trace_event env (st\<lparr>answer := Some a\<rparr>) ''answer'' [(''answer'', a)])"
  by (simp add: answer_node_def Let_def)

lemma answer_node_llm:
  "decision st \<noteq> Some ''clarify'' \<Longrightarrow> get_or (last_error st) [] = [] \<Longrightarrow>
   question st = Some qu \<Longrightarrow> sql st = Some q \<Longrightarrow>
   p = answer_prompt qu q (json_dumps env
         (JObj [(''columns'', JArr (map JStr (get_or (columns st) []))),
                (''rows'', JArr (map JArr (get_or (rows st) [])))])) \<Longrightarrow>
   a = JStr (strip (llm env (llm_calls w) p)) \<Longrightarrow>
     answer_node env w st =
       Returned (w\<lparr>llm_calls := llm_calls w @ [p]\<rparr>)
         (trace_event env (st\<lparr>answer := Some a\<rparr>) ''answer'' [(''answer'', a)])"
  by (simp add: answer_node_def Let_def)

lemma answer_node_returned:
  assumes "answer_node env w st = Returned w' st'"
  shows "db_calls w' = db_calls w \<and> attempts st' = attempts st \<and> decision st' = decision st
       \<and> last_error st' = last_error st \<and> columns st' = columns st \<and> rows st' = rows st
       \<and> nodes st' = nodes st @ [''answer'']"
proof (cases "decision st = Some ''clarify''")
  case True
  from answer_node_clarify [OF this refl, of env w] show ?thesis
    using assms by (auto simp: nodes_update nodes_trace_event trace_event_fields)
next
  case nc: False
  show ?thesis
  proof (cases "get_or (last_error st) [] \<noteq> []")
    case True
    from answer_node_error [OF nc this refl, of env w] show ?thesis
      using assms by (auto simp: nodes_update nodes_trace_event trace_event_fields)
  next
    case False
    then have e: "get_or (last_error st) [] = []" by simp
    obtain qu q where "question st = Some qu" "sql st = Some q"
      using assms nc e by (auto simp: answer_node_def split: option.splits)
    from answer_node_llm [OF nc e this refl refl, of env w] show ?thesis
      using assms by (auto simp: nodes_update nodes_trace_event trace_event_fields)
  qed
qed

lemma answer_node_raised:
  assumes "answer_node env w st = Raised e w' st'"
  shows "w' = w \<and> st' = st"
  using assms
  by (simp add: answer_node_def Let_def split: if_splits option.splits)

lemma answer_node_final:
  "attempts (final_state (answer_node env w st)) = attempts st
   \<and> attempt_events (final_state (answer_node env w st)) = attempt_events st"
proof (cases "answer_node env w st")
  case (Returned w' st')
  from answer_node_returned [OF this] show ?thesis
    by (simp add: Returned attempt_events_def)
next
  case (Raised e w' st')
  from answer_node_raised [OF this] show ?thesis
    by (simp add: Raised)
qed

lemma cycle_attempts:
  "\<exists>a. attempts (final_state (cycle env w st)) = Some a
       \<and> get_or (attempts st) 0 + 1 \<le> a
       \<and> a \<le> max (max_attempts (cfg env)) (get_or (attempts st) 0 + 1)
       \<and> int (attempt_events (final_state (cycle env w st)))
           = int (attempt_events st) + (a - get_or (attempts st) 0)"
proof (induction env w st rule: cycle.induct)
  case (1 env w st)
  let ?a0 = "get_or (attempts st) 0"
  let ?s1 = "inc_attempts env st"
  have s1: "attempts ?s1 = Some (?a0 + 1)" "attempt_events ?s1 = Suc (attempt_events st)"
    by (simp_all add: inc_attempts_effect attempt_events_def)
  show ?case
  proof (cases "gen_sql env w ?s1")
    case (Raised e w' st')
    from gen_sql_raised [OF this] have "attempts st' = Some (?a0 + 1)"
      and "attempt_events st' = Suc (attempt_events st)"
      using s1 by (auto simp: attempt_events_def)
    moreover have "cycle env w st = Raised e w' st'"
      by (subst cycle.simps) (simp add: Raised)
    ultimately show ?thesis by simp
  next
    case (Returned w' st')
    from gen_sql_returned [OF this] have g: "attempts st' = Some (?a0 + 1)"
      "attempt_events st' = Suc (attempt_events st)"
      using s1 by (auto simp: attempt_events_def)
    obtain w'' st'' where ex: "exec_sql env w' st' = (w'', st'')"
      by force
    from exec_sql_effect [OF ex] have x: "attempts st'' = Some (?a0 + 1)"
      "attempt_events st'' = Suc (attempt_events st)"
      using g by (auto simp: attempt_events_def dest: is_exec_not_attempt)
    show ?thesis
    proof (cases "should_retry env st'' = ''retry''")
      case True
      then have lt: "?a0 + 1 < max_attempts (cfg env)"
        using x by (simp add: should_retry_def get_or_def split: if_splits)
      have c: "cycle env w st = cycle env w'' st''"
        by (subst cycle.simps) (simp add: Returned ex True)
      from "1.IH" [OF Returned ex [symmetric] True]
      obtain a where a: "attempts (final_state (cycle env w'' st'')) = Some a"
        "get_or (attempts st'') 0 + 1 \<le> a"
        "a \<le> max (max_attempts (cfg env)) (get_or (attempts st'') 0 + 1)"
        "int (attempt_events (final_state (cycle env w'' st'')))
           = int (attempt_events st'') + (a - get_or (attempts st'') 0)"
        by blast
      then show ?thesis
        using c x lt by (auto simp: get_or_def)
    next
      case False
      have c: "cycle env w st = answer_node env w'' st''"
        by (subst cycle.simps) (simp add: Returned ex False)
      show ?thesis
        using answer_node_final [of env w'' st''] x by (simp add: c)
    qed
  qed
qed


section \<open>The graph, cycle by cycle\<close>








lemma clarify_first_reply:
  assumes "schema_text env = Inr sc"
    and "parse_json (json_loads env) (llm env (llm_calls w) (sql_prompt qu sc [])) = Inr (JObj kvs)"
    and "map_of kvs ''type'' = Some (JStr ''clarify'')"
  shows "\<exists>w' st'. run_question env w qu = Returned w' st'
           \<and> decision st' = Some ''clarify'' \<and> last_error st' = Some ''No SQL produced.''
           \<and> answer st' = Some (get_or (map_of kvs ''question'') (JStr ''Can you clarify?''))
           \<and> db_calls w' = db_calls w \<and> columns st' = None \<and> rows st' = None"
  using assms
  by (simp add: run_question_def invoke_def load_schema_def initial_state_def
        trace_event_def inc_attempts_def gen_sql_def gen_sql_obj_def exec_sql_def answer_node_def
        should_retry_def cycle.simps get_or_def str_or_def params_or_empty_def Let_def)


section \<open>Concrete facts for the sample collaborators\<close>

lemma strip_replies:
  "strip delete_reply = delete_reply" "strip select_reply = select_reply"
  "strip limit_reply = limit_reply" "strip clarify_reply = clarify_reply"
  "strip fake_table_reply = fake_table_reply"
  by (simp_all add: strip_def lstrip_def rstrip_def isspace_def delete_reply_def select_reply_def
        limit_reply_def padded_reply_def literal_reply_def literal_query_def clarify_reply_def fake_table_reply_def)

lemma loads_replies:
  "json_loads_sample clarify_reply = Inr (JObj clarify_items)"
  "json_loads_sample delete_reply = Inr (JObj (sql_items ''DELETE FROM teachers''))"
  "json_loads_sample select_reply = Inr (JObj (sql_items ''SELECT name FROM teachers''))"
  "json_loads_sample fake_table_reply = Inr (JObj (sql_items ''SELECT * FROM fake_table''))"
  "json_loads_sample limit_reply = Inr (JObj (sql_items ''SELECT name FROM teachers LiMiT 5''))"
  by (simp_all add: json_loads_sample_def delete_reply_def select_reply_def
        limit_reply_def padded_reply_def literal_reply_def literal_query_def clarify_reply_def fake_table_reply_def)

lemma parse_replies:
  "parse_json json_loads_sample clarify_reply = Inr (JObj clarify_items)"
  "parse_json json_loads_sample delete_reply = Inr (JObj (sql_items ''DELETE FROM teachers''))"
  "parse_json json_loads_sample select_reply = Inr (JObj (sql_items ''SELECT name FROM teachers''))"
  "parse_json json_loads_sample fake_table_reply = Inr (JObj (sql_items ''SELECT * FROM fake_table''))"
  "parse_json json_loads_sample limit_reply = Inr (JObj (sql_items ''SELECT name FROM teachers LiMiT 5''))"
  by (simp_all add: parse_json_def strip_replies loads_replies)

lemma sample_env_fields:
  "cfg (sample_env rs c) = c" "llm (sample_env rs c) = scripted_llm rs"
  "json_loads (sample_env rs c) = json_loads_sample" "db_execute (sample_env rs c) = sample_db"
  "master_sql (sample_env rs c) = Inr [Some ''CREATE TABLE teachers (name TEXT)'']"
  by (simp_all add: sample_env_def)

lemma scripted_first: "scripted_llm (r # rs) [] p = r"
  by (simp add: scripted_llm_def)

lemma ready_state_fields:
  "question ready_state = Some ''q''" "schema ready_state = Some ''s''"
  "last_error ready_state = None" "sql ready_state = None" "decision ready_state = None"
  by (simp_all add: ready_state_def initial_state_def)

lemma normalised_queries:
  "lower (rstrip_chars (strip ''DELETE FROM teachers'') '';'') = ''delete from teachers''"
  "rstrip_chars (strip ''SELECT name FROM teachers'') '';'' = ''SELECT name FROM teachers''"
  "lower ''SELECT name FROM teachers'' = ''select name from teachers''"
  "rstrip_chars (strip ''SELECT name FROM teachers LiMiT 5'') '';'' = ''SELECT name FROM teachers LiMiT 5''"
  "lower ''SELECT name FROM teachers LiMiT 5'' = ''select name from teachers limit 5''"
  "lower '' LiMiT '' = '' limit ''"
  "str_int 50 = ''50''"
  by code_simp+

lemma sample_schema:
  "schema_text (sample_env rs c) = Inr ''CREATE TABLE teachers (name TEXT);''"
  by (simp add: schema_text_def sample_env_fields strip_def lstrip_def rstrip_def isspace_def)

lemma fake_table_query:
  "rstrip_chars (strip ''SELECT * FROM fake_table'') '';'' = ''SELECT * FROM fake_table''"
  "lower ''SELECT * FROM fake_table'' = ''select * from fake_table''"
  by code_simp+

lemma parse_non_objects:
  "parse_json json_loads_sample ''42'' = Inr (JInt 42)"
  "parse_json json_loads_sample (''['' @ clarify_reply @ '']'') = Inr (JArr [JObj clarify_items])"
  by (simp_all add: parse_json_def json_loads_sample_def strip_def lstrip_def rstrip_def isspace_def
        clarify_reply_def delete_reply_def select_reply_def fake_table_reply_def limit_reply_def padded_reply_def literal_reply_def literal_query_def)

lemmas run_simps = run_question_def invoke_def load_schema_def sample_schema initial_state_def
  trace_event_def inc_attempts_def gen_sql_def gen_sql_obj_def exec_sql_def answer_node_def
  should_retry_def cycle.simps get_or_def str_or_def params_or_empty_def scripted_llm_def
  parse_replies parse_non_objects normalised_queries fake_table_query sql_items_def clarify_items_def
  sample_db_def w0_def default_config_def Let_def nodes_def sample_env_fields


section \<open>Claims\<close>

text \<open>
  C1. A reply of type sql whose query, stripped of surrounding whitespace and trailing
  semicolons, does not start with \<open>select\<close> in any letter case, leaves an empty query and
  the error \<open>Only SELECT allowed.\<close> in the state, and \<open>exec_sql\<close> then returns the state
  and the world as they are: nothing is passed to the database. The reply may carry any
  \<open>type\<close> other than \<open>clarify\<close>, and a missing \<open>sql\<close> key counts as the empty query.
\<close>

theorem non_select_never_executed:
  assumes "question st = Some qu" and "schema st = Some sc"
    and "parse_json (json_loads env) (llm env (llm_calls w) (sql_prompt qu sc (get_or (last_error st) [])))
           = Inr (JObj kvs)"
    and "map_of kvs ''type'' \<noteq> Some (JStr ''clarify'')"
    and "get_or (map_of kvs ''sql'') (JStr []) = JStr t"
    and "\<not> startswith (lower (rstrip_chars (strip t) '';'')) ''select''"
  shows "\<exists>w1 st1. gen_sql env w st = Returned w1 st1
           \<and> sql st1 = Some [] \<and> last_error st1 = Some ''Only SELECT allowed.''
           \<and> db_calls w1 = db_calls w \<and> exec_sql env w1 st1 = (w1, st1)"
  using assms
  by (simp add: gen_sql_parsed gen_sql_obj_rejected exec_sql_skip get_or_def str_or_def)

theorem non_select_never_executed_witness:
  "question ready_state = Some ''q'' \<and> schema ready_state = Some ''s''
   \<and> parse_json (json_loads (sample_env [delete_reply] default_config))
        (llm (sample_env [delete_reply] default_config) (llm_calls w0)
           (sql_prompt ''q'' ''s'' (get_or (last_error ready_state) [])))
       = Inr (JObj (sql_items ''DELETE FROM teachers''))
   \<and> map_of (sql_items ''DELETE FROM teachers'') ''type'' \<noteq> Some (JStr ''clarify'')
   \<and> get_or (map_of (sql_items ''DELETE FROM teachers'') ''sql'') (JStr []) = JStr ''DELETE FROM teachers''
   \<and> \<not> startswith (lower (rstrip_chars (strip ''DELETE FROM teachers'') '';'')) ''select''
   \<and> (\<exists>w1 st1. gen_sql (sample_env [delete_reply] default_config) w0 ready_state = Returned w1 st1
           \<and> sql st1 = Some [] \<and> last_error st1 = Some ''Only SELECT allowed.''
           \<and> db_calls w1 = db_calls w0
           \<and> exec_sql (sample_env [delete_reply] default_config) w1 st1 = (w1, st1))"
proof -
  let ?env = "sample_env [delete_reply] default_config"
  have h1: "question ready_state = Some ''q''" and h2: "schema ready_state = Some ''s''"
    by (simp_all add: ready_state_fields)
  have h3: "parse_json (json_loads ?env) (llm ?env (llm_calls w0)
              (sql_prompt ''q'' ''s'' (get_or (last_error ready_state) [])))
            = Inr (JObj (sql_items ''DELETE FROM teachers''))"
    by (simp add: sample_env_fields w0_def scripted_first parse_replies)
  have h4: "map_of (sql_items ''DELETE FROM teachers'') ''type'' \<noteq> Some (JStr ''clarify'')"
    by (simp add: sql_items_def)
  have h5: "get_or (map_of (sql_items ''DELETE FROM teachers'') ''sql'') (JStr []) = JStr ''DELETE FROM teachers''"
    by (simp add: sql_items_def get_or_def)
  have h6: "\<not> startswith (lower (rstrip_chars (strip ''DELETE FROM teachers'') '';'')) ''select''"
    by (simp add: normalised_queries)
  show ?thesis
    using h1 h2 h3 h4 h5 h6 non_select_never_executed [OF h1 h2 h3 h4 h5 h6] by blast
qed

text \<open>
  C2. A run started by \<open>run_question\<close> with \<open>max_attempts\<close> at least 1 ends (the graph
  \<open>cycle\<close> is a total function: each retry needs \<open>attempts < max_attempts\<close> and each
  cycle adds one to \<open>attempts\<close>), and whether it returns or raises, \<open>attempts\<close> is then at
  most \<open>max_attempts\<close> and equals the number of cycles started, whatever the model and
  the database answer.
\<close>

theorem attempts_bounded:
  assumes "1 \<le> max_attempts (cfg env)"
  shows "\<exists>a. attempts (final_state (run_question env w qu)) = Some a
           \<and> a \<le> max_attempts (cfg env)
           \<and> int (attempt_events (final_state (run_question env w qu))) = a"
proof (cases "load_schema env w (initial_state qu)")
  case (Raised e w' st')
  then have "st' = initial_state qu"
    by (auto simp: load_schema_def split: sum.splits)
  then show ?thesis
    using assms Raised
    by (simp add: run_question_def invoke_def initial_state_def attempt_events_def nodes_def get_or_def)
next
  case (Returned w' st')
  then have s: "attempts st' = Some 0" "attempt_events st' = 0"
    by (auto simp: load_schema_def initial_state_def attempt_events_def nodes_trace_event
                   nodes_update trace_event_fields nodes_def get_or_def trace_event_def Let_def
             split: sum.splits)
  have r: "run_question env w qu = cycle env w' st'"
    by (simp add: run_question_def invoke_def Returned)
  from cycle_attempts [of env w' st'] show ?thesis
    using s assms by (auto simp: r get_or_def)
qed

theorem attempts_bounded_witness:
  "1 \<le> max_attempts (cfg (sample_env [fake_table_reply] default_config))
   \<and> (\<exists>a. attempts (final_state (run_question (sample_env [fake_table_reply] default_config) w0 ''q'')) = Some a
           \<and> a \<le> max_attempts (cfg (sample_env [fake_table_reply] default_config))
           \<and> int (attempt_events (final_state
                  (run_question (sample_env [fake_table_reply] default_config) w0 ''q''))) = a)"
proof -
  have h: "1 \<le> max_attempts (cfg (sample_env [fake_table_reply] default_config))"
    by (simp add: sample_env_fields default_config_def)
  show ?thesis
    using h attempts_bounded [OF h, of w0 "''q''"] by blast
qed

text \<open>
  C3. The claim fails on the program: when a query has failed in the database and the
  model then asks for clarification, \<open>gen_sql\<close> sets the decision and leaves the failed
  query in the state, and \<open>exec_sql\<close> runs it once more. With \<open>max_attempts = 2\<close>, a first
  reply querying a missing table and a second reply of type clarify, the database
  receives the query twice, the second time after the clarify reply.
\<close>

theorem clarify_after_failure_runs_stale_query:
  "db_calls (final_world (run_question (sample_env [fake_table_reply, clarify_reply] default_config) w0 ''q''))
     = [(''SELECT * FROM fake_table LIMIT 50'', None), (''SELECT * FROM fake_table LIMIT 50'', None)]
   \<and> decision (final_state (run_question (sample_env [fake_table_reply, clarify_reply] default_config) w0 ''q''))
     = Some ''clarify''
   \<and> nodes (final_state (run_question (sample_env [fake_table_reply, clarify_reply] default_config) w0 ''q''))
     = [''load_schema'', ''attempt'', ''llm_raw'', ''gen_sql'', ''exec_sql_error'',
        ''attempt'', ''llm_raw'', ''exec_sql_error'', ''answer'']"
  by (simp add: run_simps)



text \<open>
  C5. The claim fails on the program: \<open>_sql_prompt\<close> passes the whole text, the error
  included, through \<open>textwrap.dedent\<close>, which empties every line made of spaces and
  tabs. An error message with such a line is not in the prompt character for character;
  the prompt holds it with that line emptied.
\<close>

theorem prompt_alters_error_with_blank_line:
  "\<not> contains (sql_prompt ''q'' ''s'' (''a'' @ [NL] @ '' '' @ [NL] @ ''b''))
               (''a'' @ [NL] @ '' '' @ [NL] @ ''b'')
   \<and> contains (sql_prompt ''q'' ''s'' (''a'' @ [NL] @ '' '' @ [NL] @ ''b''))
              (''Previous SQL failed: a'' @ [NL] @ [NL] @ ''b'' @ [NL] @ ''Fix it.'')"
  by code_simp

lemma prompt_without_error_has_no_repair:
  "repair [] = [] \<and> \<not> contains (sql_prompt ''q'' ''s'' []) ''Previous SQL failed''"
  by code_simp

lemma prompt_quotes_one_line_error:
  "contains (sql_prompt ''q'' ''s'' ''no such table: fake_table'')
     (''Previous SQL failed: no such table: fake_table'' @ [NL] @ ''Fix it.'')"
  by code_simp

text \<open>
  C6. When the answer step is reached with a decision other than clarify and a non-empty
  \<open>last_error\<close>, the answer is the fixed text around that error, the error occurs in it
  verbatim, and the world is returned as it was: the model is not called.
\<close>

theorem answer_error_branch:
  assumes "decision st \<noteq> Some ''clarify''" and "last_error st = Some e" and "e \<noteq> []"
  shows "\<exists>st'. answer_node env w st = Returned w st'
           \<and> answer st' = Some (JStr (''Couldn't run a valid SQL query.'' @ [NL] @ ''Error: '' @ e
                                   @ [NL] @ ''Try rephrasing or adding missing details.''))
           \<and> contains (''Couldn't run a valid SQL query.'' @ [NL] @ ''Error: '' @ e
                         @ [NL] @ ''Try rephrasing or adding missing details.'') e"
proof -
  have "contains ((''Couldn't run a valid SQL query.'' @ [NL] @ ''Error: '') @ e
                    @ ([NL] @ ''Try rephrasing or adding missing details.'')) e"
    by (rule contains_append)
  moreover have "answer_node env w st = Returned w
      (trace_event env (st\<lparr>answer := Some (JStr (error_answer e))\<rparr>) ''answer''
         [(''answer'', JStr (error_answer e))])"
    using assms by (simp add: answer_node_error get_or_def)
  ultimately show ?thesis
    by (simp add: error_answer_def trace_event_fields)
qed

theorem answer_error_branch_witness:
  "decision failed_state \<noteq> Some ''clarify''
   \<and> last_error failed_state = Some ''no such table: fake_table''
   \<and> ''no such table: fake_table'' \<noteq> []
   \<and> (\<exists>st'. answer_node (sample_env [fake_table_reply] default_config) w0 failed_state = Returned w0 st'
         \<and> answer st' = Some (JStr (''Couldn't run a valid SQL query.'' @ [NL]
               @ ''Error: '' @ ''no such table: fake_table''
               @ [NL] @ ''Try rephrasing or adding missing details.'')))"
proof -
  have h: "decision failed_state \<noteq> Some ''clarify''"
    "last_error failed_state = Some ''no such table: fake_table''"
    "''no such table: fake_table'' \<noteq> []"
    by (simp_all add: failed_state_def ready_state_def initial_state_def)
  show ?thesis
    using h answer_error_branch [OF h, of "sample_env [fake_table_reply] default_config" w0] by blast
qed

text \<open>
  C7. The claim fails on the program: \<open>_parse_json\<close> returns whatever the first
  \<open>json.loads\<close> returns, an object or not. On the reply \<open>42\<close> it returns the number
  instead of failing, and on an object wrapped in brackets it returns the list, not the
  object; \<open>gen_sql\<close> then calls \<open>.get\<close> on that value outside its \<open>try\<close>, and the run
  ends with the exception.
\<close>

theorem parse_json_accepts_non_object:
  "parse_json json_loads_sample ''42'' = Inr (JInt 42)
   \<and> parse_json json_loads_sample clarify_reply = Inr (JObj clarify_items)
   \<and> parse_json json_loads_sample (''['' @ clarify_reply @ '']'') = Inr (JArr [JObj clarify_items])
   \<and> \<not> completed (run_question (sample_env [''42''] default_config) w0 ''q'')"
proof -
  have "\<not> completed (run_question (sample_env [''42''] default_config) w0 ''q'')"
    by (simp add: run_simps)
  then show ?thesis
    using parse_non_objects parse_replies(1) by blast
qed

lemma parse_json_prose_wrapped:
  "parse_json json_loads_sample (''Sure! '' @ clarify_reply @ '' done.'') = Inr (JObj clarify_items)"
  by (simp add: parse_json_def json_loads_sample_def strip_def lstrip_def rstrip_def isspace_def
        clarify_reply_def delete_reply_def select_reply_def fake_table_reply_def limit_reply_def padded_reply_def literal_reply_def literal_query_def
        str_rfind_def slice_def Let_def)




text \<open>
  C9. In the answer step the clarify branch comes first: with \<open>decision = clarify\<close> the
  answer is the stored clarification question, or \<open>Can you clarify?\<close> when the key is
  absent, whatever \<open>last_error\<close> holds. When the first reply of a run is of type clarify,
  the run ends with \<open>last_error = No SQL produced.\<close> and still answers with the question
  of the reply.
\<close>

theorem clarify_answer_priority:
  "(decision st = Some ''clarify'' \<longrightarrow>
      (\<exists>st'. answer_node env w st = Returned w st'
         \<and> answer st' = Some (get_or (clarification_question st) (JStr ''Can you clarify?''))))
   \<and> (schema_text env = Inr sc
      \<and> parse_json (json_loads env) (llm env (llm_calls w) (sql_prompt qu sc [])) = Inr (JObj kvs)
      \<and> map_of kvs ''type'' = Some (JStr ''clarify'') \<longrightarrow>
      (\<exists>w' st'. run_question env w qu = Returned w' st'
         \<and> decision st' = Some ''clarify'' \<and> last_error st' = Some ''No SQL produced.''
         \<and> answer st' = Some (get_or (map_of kvs ''question'') (JStr ''Can you clarify?''))))"
proof (intro conjI impI)
  assume "decision st = Some ''clarify''"
  from answer_node_clarify [OF this refl, of env w]
  show "\<exists>st'. answer_node env w st = Returned w st'
         \<and> answer st' = Some (get_or (clarification_question st) (JStr ''Can you clarify?''))"
    by (simp add: trace_event_fields)
next
  assume "schema_text env = Inr sc
      \<and> parse_json (json_loads env) (llm env (llm_calls w) (sql_prompt qu sc [])) = Inr (JObj kvs)
      \<and> map_of kvs ''type'' = Some (JStr ''clarify'')"
  then show "\<exists>w' st'. run_question env w qu = Returned w' st'
         \<and> decision st' = Some ''clarify'' \<and> last_error st' = Some ''No SQL produced.''
         \<and> answer st' = Some (get_or (map_of kvs ''question'') (JStr ''Can you clarify?''))"
    using clarify_first_reply [of env sc w qu kvs] by blast
qed

theorem clarify_answer_priority_witness:
  "decision clarify_state = Some ''clarify'' \<and> last_error clarify_state = Some ''No SQL produced.''
   \<and> (\<exists>st'. answer_node (sample_env [clarify_reply] default_config) w0 clarify_state = Returned w0 st'
         \<and> answer st' = Some (JStr ''Which semester?''))
   \<and> schema_text (sample_env [clarify_reply] default_config) = Inr ''CREATE TABLE teachers (name TEXT);''
   \<and> parse_json (json_loads (sample_env [clarify_reply] default_config))
        (llm (sample_env [clarify_reply] default_config) (llm_calls w0)
           (sql_prompt ''q'' ''CREATE TABLE teachers (name TEXT);'' [])) = Inr (JObj clarify_items)
   \<and> map_of clarify_items ''type'' = Some (JStr ''clarify'')
   \<and> (\<exists>w' st'. run_question (sample_env [clarify_reply] default_config) w0 ''q'' = Returned w' st'
         \<and> decision st' = Some ''clarify'' \<and> last_error st' = Some ''No SQL produced.''
         \<and> answer st' = Some (JStr ''Which semester?''))"
proof -
  let ?env = "sample_env [clarify_reply] default_config"
  have h1: "decision clarify_state = Some ''clarify''"
    and h2: "last_error clarify_state = Some ''No SQL produced.''"
    and q: "get_or (clarification_question clarify_state) (JStr ''Can you clarify?'') = JStr ''Which semester?''"
    by (simp_all add: clarify_state_def get_or_def)
  have h3: "schema_text ?env = Inr ''CREATE TABLE teachers (name TEXT);''"
    by (rule sample_schema)
  have h4: "parse_json (json_loads ?env) (llm ?env (llm_calls w0)
              (sql_prompt ''q'' ''CREATE TABLE teachers (name TEXT);'' [])) = Inr (JObj clarify_items)"
    by (simp add: sample_env_fields w0_def scripted_first parse_replies)
  have h5: "map_of clarify_items ''type'' = Some (JStr ''clarify'')"
    and q2: "get_or (map_of clarify_items ''question'') (JStr ''Can you clarify?'') = JStr ''Which semester?''"
    by (simp_all add: clarify_items_def get_or_def)
  show ?thesis
    using h1 h2 h3 h4 h5
      clarify_answer_priority [of clarify_state ?env w0 "''CREATE TABLE teachers (name TEXT);''" "''q''" clarify_items]
    by (simp add: q q2)
qed

text \<open>
  C10. When \<open>exec_sql\<close> finds no query (the key absent or the empty string) and a
  non-empty \<open>last_error\<close>, it returns the state and the world exactly as they were; the
  text \<open>No SQL produced.\<close> is written only when \<open>last_error\<close> is absent or empty, and
  then no other field changes.
\<close>

theorem exec_sql_keeps_error:
  assumes "get_or (sql st) [] = []"
  shows "(\<forall>e. last_error st = Some e \<and> e \<noteq> [] \<longrightarrow> exec_sql env w st = (w, st))
       \<and> (get_or (last_error st) [] = [] \<longrightarrow>
            exec_sql env w st = (w, st\<lparr>last_error := Some ''No SQL produced.''\<rparr>))"
  using assms by (auto simp: exec_sql_skip str_or_def get_or_def split: option.splits)

theorem exec_sql_keeps_error_witness:
  "get_or (sql rejected_state) [] = []
   \<and> last_error rejected_state = Some ''Only SELECT allowed.'' \<and> ''Only SELECT allowed.'' \<noteq> []
   \<and> exec_sql (sample_env [delete_reply] default_config) w0 rejected_state = (w0, rejected_state)
   \<and> get_or (sql ready_state) [] = [] \<and> get_or (last_error ready_state) [] = []
   \<and> exec_sql (sample_env [delete_reply] default_config) w0 ready_state
       = (w0, ready_state\<lparr>last_error := Some ''No SQL produced.''\<rparr>)"
proof -
  have h1: "get_or (sql rejected_state) [] = []"
    and h2: "last_error rejected_state = Some ''Only SELECT allowed.'' \<and> ''Only SELECT allowed.'' \<noteq> []"
    by (simp_all add: rejected_state_def get_or_def)
  have h3: "get_or (sql ready_state) [] = []" and h4: "get_or (last_error ready_state) [] = []"
    by (simp_all add: ready_state_fields get_or_def)
  show ?thesis
    using h1 h2 h3 h4
      exec_sql_keeps_error [OF h1, of "sample_env [delete_reply] default_config" w0]
      exec_sql_keeps_error [OF h3, of "sample_env [delete_reply] default_config" w0]
    by blast
qed

end
